theory Spec2Isabelle
  imports Main
begin

section \<open>JavaScript values\<close>

text \<open>
  The documents of the store are schema-less: a field read from a document is any
  JavaScript value, and a field that the document does not have reads as \<open>undefined\<close>.
  The model has the scalar values. A number is an IEEE double in JavaScript; the model
  has the doubles that are integers, \<open>Num n\<close> standing for the double nearest to \<open>n\<close>
  (which is \<open>n\<close> itself up to \<open>2^53\<close> in absolute value), and \<open>-0\<close> is \<open>0\<close>: both print as
  \<open>0\<close> and the store compares them equal. A character is a code unit below 256.
\<close>

datatype jsval = Undefined | Null | Bool bool | Num int | Str string

text \<open>ToBoolean: what \<open>a || b\<close> and \<open>!a\<close> test.\<close>

fun truthy :: "jsval \<Rightarrow> bool" where
  "truthy Undefined = False"
| "truthy Null = False"
| "truthy (Bool b) = b"
| "truthy (Num n) = (n \<noteq> 0)"
| "truthy (Str s) = (s \<noteq> [])"

text \<open>\<open>a || b\<close>: the left operand when it is truthy, the right one otherwise.\<close>

definition js_or :: "jsval \<Rightarrow> jsval \<Rightarrow> jsval" where
  "js_or a b = (if truthy a then a else b)"

definition digit_char :: "nat \<Rightarrow> char" where
  "digit_char d = ''0123456789'' ! d"

fun show_nat :: "nat \<Rightarrow> string" where
  "show_nat n =
     (if n < 10 then [digit_char n] else show_nat (n div 10) @ [digit_char (n mod 10)])"

declare show_nat.simps [simp del]

text \<open>The decimal text of an integer, all digits written out.\<close>

definition show_int :: "int \<Rightarrow> string" where
  "show_int i = (if i < 0 then CHR ''-'' # show_nat (nat (- i)) else show_nat (nat i))"

subsection \<open>Doubles\<close>

text \<open>
  The double nearest to a natural number: the number itself up to \<open>2^53\<close>; above, the
  number rounded to 53 significant bits, a tie going to the even significand; and
  \<open>None\<close>, for \<open>Infinity\<close>, from \<open>2^1024 - 2^970\<close> on, half a step above the largest
  double.
\<close>

fun bit_length :: "nat \<Rightarrow> nat" where
  "bit_length n = (if n = 0 then 0 else bit_length (n div 2) + 1)"

declare bit_length.simps [simp del]

definition round_to_53_bits :: "nat \<Rightarrow> nat" where
  "round_to_53_bits m =
     (let e = bit_length m - 53;
          q = m div 2 ^ e;
          r = m mod 2 ^ e;
          half = 2 ^ (e - 1)
      in (if half < r \<or> (r = half \<and> odd q) then q + 1 else q) * 2 ^ e)"

definition to_double :: "nat \<Rightarrow> nat option" where
  "to_double m =
     (if m \<le> 2 ^ 53 then Some m
      else if 2 ^ 1024 - 2 ^ 970 \<le> m then None
      else Some (round_to_53_bits m))"

text \<open>
  Number to string, as a template literal \<open>`${n}`\<close> converts a number. Up to \<open>2^53\<close> the
  text is the decimal text of the integer. Above, it is made from the decimal number with
  the fewest significant digits \<open>k\<close> that still rounds to the double \<open>x\<close>, the nearest to \<open>x\<close>
  of those (the one with the even last digit when two are as near): with \<open>e\<close> zeros to
  come after the \<open>k\<close> digits, the only candidates are the two multiples of \<open>10^e\<close> around
  \<open>x\<close>. A number of up to 21 digits is then written out in full, a longer one as
  \<open>d.ddde+n\<close>.
\<close>

fun digit_count :: "nat \<Rightarrow> nat" where
  "digit_count n = (if n < 10 then 1 else digit_count (n div 10) + 1)"

declare digit_count.simps [simp del]

definition shortest_candidate :: "nat \<Rightarrow> nat \<Rightarrow> nat option" where
  "shortest_candidate x e =
     (let q = x div 10 ^ e;
          lo = q * 10 ^ e;
          hi = (q + 1) * 10 ^ e;
          lo_ok = (to_double lo = Some x);
          hi_ok = (to_double hi = Some x)
      in if lo_ok \<and> hi_ok then
           (if x - lo < hi - x then Some lo
            else if hi - x < x - lo then Some hi
            else if even q then Some lo else Some hi)
         else if lo_ok then Some lo
         else if hi_ok then Some hi
         else None)"

function shortest_from :: "nat \<Rightarrow> nat \<Rightarrow> nat \<Rightarrow> nat" where
  "shortest_from x n k =
     (if n \<le> k then x
      else (case shortest_candidate x (n - k) of
              Some v \<Rightarrow> v
            | None \<Rightarrow> shortest_from x n (k + 1)))"
  by pat_completeness auto
termination
  by (relation "measure (\<lambda>(x, n, k). n - k)") auto

declare shortest_from.simps [simp del]

definition strip_zeros :: "string \<Rightarrow> string" where
  "strip_zeros ds = rev (dropWhile (\<lambda>c. c = CHR ''0'') (rev ds))"

definition show_double :: "nat \<Rightarrow> string" where
  "show_double x =
     (let v = shortest_from x (digit_count x) 1;
          n = digit_count v
      in if n \<le> 21 then show_nat v
         else
           (case strip_zeros (show_nat v) of
              [] \<Rightarrow> []
            | d # fraction \<Rightarrow>
                d # (if fraction = [] then [] else CHR ''.'' # fraction)
                  @ ''e+'' @ show_nat (n - 1)))"

definition show_number :: "nat \<Rightarrow> string" where
  "show_number m =
     (if m \<le> 2 ^ 53 then show_nat m
      else (case to_double m of None \<Rightarrow> ''Infinity'' | Some x \<Rightarrow> show_double x))"

definition number_to_string :: "int \<Rightarrow> string" where
  "number_to_string i =
     (if i < 0 then CHR ''-'' # show_number (nat (- i)) else show_number (nat i))"

text \<open>ToString, as a template literal \<open>`${v}`\<close> converts a value.\<close>

fun to_string :: "jsval \<Rightarrow> string" where
  "to_string Undefined = ''undefined''"
| "to_string Null = ''null''"
| "to_string (Bool b) = (if b then ''true'' else ''false'')"
| "to_string (Num n) = number_to_string n"
| "to_string (Str s) = s"

section \<open>parseInt\<close>

text \<open>
  \<open>parseInt(string, 10)\<close>: leading white space is skipped, one sign is read, the longest
  run of decimal digits that follows is the number, and the rest of the string is ignored.
  With no digit there the result is \<open>NaN\<close>. The result is a double: the one nearest to the
  value of the digits, or an infinity. (The language lets an implementation read the
  digits after the twentieth as zeros; the model rounds the exact value.)
\<close>

datatype number = NaN | Integer int | PosInfinity | NegInfinity

definition is_white_space :: "char \<Rightarrow> bool" where
  "is_white_space c =
     (c \<in> set [CHR 0x09, CHR 0x0A, CHR 0x0B, CHR 0x0C, CHR 0x0D, CHR 0x20, CHR 0xA0])"

definition is_digit :: "char \<Rightarrow> bool" where
  "is_digit c = (c \<in> set ''0123456789'')"

definition digit_value :: "char \<Rightarrow> nat" where
  "digit_value c = of_char c - 48"

definition digits_value :: "string \<Rightarrow> nat" where
  "digits_value Z = foldl (\<lambda>a c. 10 * a + digit_value c) 0 Z"

definition js_parseInt :: "string \<Rightarrow> number" where
  "js_parseInt inputString =
     (let S = dropWhile is_white_space inputString;
          sign = (case S of c # _ \<Rightarrow> if c = CHR ''-'' then - 1 else 1 | [] \<Rightarrow> 1);
          S' = (case S of c # cs \<Rightarrow> if c = CHR ''+'' \<or> c = CHR ''-'' then cs else S
                | [] \<Rightarrow> S);
          Z = takeWhile is_digit S'
      in if Z = [] then NaN
         else
           (case to_double (digits_value Z) of
              None \<Rightarrow> if sign < 0 then NegInfinity else PosInfinity
            | Some d \<Rightarrow> Integer (sign * int d)))"

section \<open>The document store\<close>

text \<open>
  The database \<open>Tayco\<close> has the collections \<open>OrderHeaders\<close> and \<open>Labels\<close>. An order header
  and a label carry an integer \<open>OrderNr\<close>; the other fields of a label are read as they are
  stored, and \<open>other\<close> holds the fields that the handlers never read.
\<close>

record order_header =
  OrderNr :: int
  other :: "(string \<times> jsval) list"

record label =
  OrderNr :: int
  PlantDate :: jsval
  ItemNumber :: jsval
  Quantity :: jsval
  ItemDescription :: jsval
  PickAreaName :: jsval
  SmallText :: jsval
  UOM :: jsval
  barcodeId :: jsval
  other :: "(string \<times> jsval) list"

text \<open>
  The queries the handlers send, with their arguments. \<open>Labels_find_Infinity\<close> is the
  query for the labels of an infinite order number, \<open>-Infinity\<close> when the flag is set.
\<close>

datatype query =
    Labels_distinct_OrderNr
  | OrderHeaders_find_in "int list"
  | Labels_find int
  | Labels_find_Infinity bool
  | Labels_findOne string

text \<open>
  A store is its two collections, in the order the store returns documents, and \<open>fault\<close>:
  the queries that the store rejects, each with the message of the error it raises.
\<close>

record store =
  Labels :: "label list"
  OrderHeaders :: "order_header list"
  fault :: "query \<Rightarrow> string option"

text \<open>
  A query returns \<open>Inr\<close> its result, or \<open>Inl\<close> the message of the error thrown.
  \<open>distinct("OrderNr")\<close> returns each value once.
\<close>

definition distinct_OrderNr :: "store \<Rightarrow> string + int list" where
  "distinct_OrderNr s =
     (case fault s Labels_distinct_OrderNr of
        Some message \<Rightarrow> Inl message
      | None \<Rightarrow> Inr (remdups (map label.OrderNr (Labels s))))"

text \<open>\<open>find({ OrderNr: { $in: validOrderNumbers } }).toArray()\<close> on \<open>OrderHeaders\<close>.\<close>

definition find_OrderHeaders_in :: "store \<Rightarrow> int list \<Rightarrow> string + order_header list" where
  "find_OrderHeaders_in s validOrderNumbers =
     (case fault s (OrderHeaders_find_in validOrderNumbers) of
        Some message \<Rightarrow> Inl message
      | None \<Rightarrow>
          Inr (filter (\<lambda>h. order_header.OrderNr h \<in> set validOrderNumbers) (OrderHeaders s)))"

text \<open>\<open>find({ OrderNr: orderNr }).toArray()\<close> on \<open>Labels\<close>.\<close>

definition find_Labels :: "store \<Rightarrow> int \<Rightarrow> string + label list" where
  "find_Labels s orderNr =
     (case fault s (Labels_find orderNr) of
        Some message \<Rightarrow> Inl message
      | None \<Rightarrow> Inr (filter (\<lambda>l. label.OrderNr l = orderNr) (Labels s)))"

text \<open>\<open>findOne({ barcodeId })\<close> on \<open>Labels\<close>: the first match, or \<open>null\<close>.\<close>

definition findOne_Label :: "store \<Rightarrow> string \<Rightarrow> string + label option" where
  "findOne_Label s b =
     (case fault s (Labels_findOne b) of
        Some message \<Rightarrow> Inl message
      | None \<Rightarrow> Inr (find (\<lambda>l. barcodeId l = Str b) (Labels s)))"

section \<open>Responses and effects\<close>

record detail =
  ItemNumber :: jsval
  Quantity :: jsval
  ItemDescription :: jsval
  PickAreaName :: jsval
  SmallText :: jsval
  UOM :: jsval
  BarcodeID :: jsval

record order_detail =
  OrderNr :: int
  PlantDate :: jsval
  Details :: "detail list"

text \<open>
  The body given to \<open>res.json\<close>: \<open>{ error: message }\<close>, the array of order headers, the
  order detail object, or a label document.
\<close>

datatype body =
    ErrorJson string
  | OrdersJson "order_header list"
  | DetailJson order_detail
  | LabelJson label

datatype response = Response (status: nat) (json: body)

text \<open>
  What a handler does besides responding, in order: the queries it sends to the store and
  the lines it writes to the console.
\<close>

datatype effect =
    Query query
  | console_log string
  | console_warn string
  | console_error string

definition queries :: "effect list \<Rightarrow> query list" where
  "queries es = concat (map (\<lambda>e. case e of Query q \<Rightarrow> [q] | _ \<Rightarrow> []) es)"

section \<open>The handlers\<close>

text \<open>\<open>GET /order-headers\<close>.\<close>

definition order_headers :: "store \<Rightarrow> effect list \<times> response" where
  "order_headers s =
     (case distinct_OrderNr s of
        Inl message \<Rightarrow>
          ([Query Labels_distinct_OrderNr,
            console_error (''[ERROR] Error fetching valid orders: '' @ message)],
           Response 500 (ErrorJson ''Error fetching valid orders.''))
      | Inr validOrderNumbers \<Rightarrow>
          if validOrderNumbers = [] then
            ([Query Labels_distinct_OrderNr,
              console_warn ''[WARN] No valid orders found in Labels.''],
             Response 404 (ErrorJson ''No valid orders found.''))
          else
            (case find_OrderHeaders_in s validOrderNumbers of
               Inl message \<Rightarrow>
                 ([Query Labels_distinct_OrderNr,
                   Query (OrderHeaders_find_in validOrderNumbers),
                   console_error (''[ERROR] Error fetching valid orders: '' @ message)],
                  Response 500 (ErrorJson ''Error fetching valid orders.''))
             | Inr orders \<Rightarrow>
                 if orders = [] then
                   ([Query Labels_distinct_OrderNr,
                     Query (OrderHeaders_find_in validOrderNumbers),
                     console_warn ''[WARN] No matching orders found in OrderHeaders.''],
                    Response 404 (ErrorJson ''No matching orders found.''))
                 else
                   ([Query Labels_distinct_OrderNr,
                     Query (OrderHeaders_find_in validOrderNumbers)],
                    Response 200 (OrdersJson orders))))"

text \<open>The entry of \<open>Details\<close> made from one label.\<close>

definition detail_of :: "int \<Rightarrow> label \<Rightarrow> detail" where
  "detail_of orderNr l =
     \<lparr> detail.ItemNumber = label.ItemNumber l,
       detail.Quantity = label.Quantity l,
       detail.ItemDescription = label.ItemDescription l,
       detail.PickAreaName = label.PickAreaName l,
       detail.SmallText = js_or (label.SmallText l) Null,
       detail.UOM = js_or (label.UOM l) Null,
       BarcodeID =
         js_or (barcodeId l)
           (Str (number_to_string orderNr @ ''-'' @ to_string (label.ItemNumber l))) \<rparr>"

text \<open>
  \<open>GET /order-details/:orderNr\<close>, given \<open>req.params.orderNr\<close>. First what the handler does
  once the parameter is parsed to an infinity: the \<open>OrderNr\<close> of a label is an integer, so
  the query, unless the store rejects it, returns no label and the response is the 404.
\<close>

definition order_details_Infinity :: "store \<Rightarrow> bool \<Rightarrow> effect list \<times> response" where
  "order_details_Infinity s negative =
     (case fault s (Labels_find_Infinity negative) of
        Some message \<Rightarrow>
          ([Query (Labels_find_Infinity negative),
            console_error (''[ERROR] Error fetching order details: '' @ message)],
           Response 500 (ErrorJson ''Error fetching order details.''))
      | None \<Rightarrow>
          ([Query (Labels_find_Infinity negative)],
           Response 404
             (ErrorJson
               (''No valid labels found for OrderNr: ''
                @ (if negative then ''-Infinity'' else ''Infinity'')))))"

definition order_details :: "store \<Rightarrow> string \<Rightarrow> effect list \<times> response" where
  "order_details s param =
     (case js_parseInt param of
        NaN \<Rightarrow> ([], Response 400 (ErrorJson ''OrderNr must be a valid number.''))
      | PosInfinity \<Rightarrow> order_details_Infinity s False
      | NegInfinity \<Rightarrow> order_details_Infinity s True
      | Integer orderNr \<Rightarrow>
          (case find_Labels s orderNr of
             Inl message \<Rightarrow>
               ([Query (Labels_find orderNr),
                 console_error (''[ERROR] Error fetching order details: '' @ message)],
                Response 500 (ErrorJson ''Error fetching order details.''))
           | Inr [] \<Rightarrow>
               ([Query (Labels_find orderNr)],
                Response 404
                  (ErrorJson
                    (''No valid labels found for OrderNr: '' @ number_to_string orderNr)))
           | Inr (first # others) \<Rightarrow>
               ([Query (Labels_find orderNr)],
                Response 200
                  (DetailJson
                    \<lparr> order_detail.OrderNr = orderNr,
                      order_detail.PlantDate = js_or (label.PlantDate first) Null,
                      Details = map (detail_of orderNr) (first # others) \<rparr>))))"

text \<open>\<open>GET /labels/:barcodeId\<close>, given \<open>req.params.barcodeId\<close>.\<close>

definition labels_by_barcode :: "store \<Rightarrow> string \<Rightarrow> effect list \<times> response" where
  "labels_by_barcode s b =
     (if b = [] then ([], Response 400 (ErrorJson ''Barcode ID is required.''))
      else
        (case findOne_Label s b of
           Inl message \<Rightarrow>
             ([console_log (''[DEBUG] Searching for label with Barcode ID: '' @ b),
               Query (Labels_findOne b),
               console_error
                 (''[ERROR] Fetching label failed for Barcode ID: '' @ b @ ''. Error: ''
                  @ message)],
              Response 500 (ErrorJson ''Error fetching label.''))
         | Inr None \<Rightarrow>
             ([console_log (''[DEBUG] Searching for label with Barcode ID: '' @ b),
               Query (Labels_findOne b),
               console_warn (''[WARN] Label not found for ID: '' @ b)],
              Response 404 (ErrorJson (''Label not found for ID: '' @ b)))
         | Inr (Some l) \<Rightarrow>
             ([console_log (''[DEBUG] Searching for label with Barcode ID: '' @ b),
               Query (Labels_findOne b)],
              Response 200 (LabelJson l))))"

text \<open>The fallback for every request that no route takes.\<close>

definition route_not_found :: "effect list \<times> response" where
  "route_not_found = ([], Response 404 (ErrorJson ''Route not found.''))"

section \<open>Routing\<close>

text \<open>
  The routes are tried in the order they are registered. A route's path matches the
  request's path without regard to the case of ASCII letters and with one optional slash
  at the end; a parameter \<open>:name\<close> matches one or more characters other than a slash.
\<close>

definition lower :: "char \<Rightarrow> char" where
  "lower c =
     (case map_of (zip ''ABCDEFGHIJKLMNOPQRSTUVWXYZ'' ''abcdefghijklmnopqrstuvwxyz'') c of
        Some l \<Rightarrow> l
      | None \<Rightarrow> c)"

definition strip_slash :: "string \<Rightarrow> string" where
  "strip_slash p = (if p \<noteq> [] \<and> last p = CHR ''/'' then butlast p else p)"

definition match_path :: "string \<Rightarrow> string \<Rightarrow> bool" where
  "match_path route p = (map lower p = route \<or> map lower p = route @ ''/'')"

definition match_param :: "string \<Rightarrow> string \<Rightarrow> string option" where
  "match_param route p =
     (let seg = strip_slash (drop (length route) p)
      in if map lower (take (length route) p) = route \<and> seg \<noteq> [] \<and> CHR ''/'' \<notin> set seg
         then Some seg else None)"

text \<open>
  A \<open>GET\<close> request for a path. The parameter is handed to the handler percent-decoded; the
  decoding is not modelled, and the result is \<open>None\<close> for a parameter with a percent sign.
\<close>

definition app_get :: "store \<Rightarrow> string \<Rightarrow> (effect list \<times> response) option" where
  "app_get s p =
     (if match_path ''/order-headers'' p then Some (order_headers s)
      else
        (case match_param ''/order-details/'' p of
           Some orderNr \<Rightarrow>
             if CHR ''%'' \<in> set orderNr then None else Some (order_details s orderNr)
         | None \<Rightarrow>
             (case match_param ''/labels/'' p of
                Some b \<Rightarrow>
                  if CHR ''%'' \<in> set b then None else Some (labels_by_barcode s b)
              | None \<Rightarrow> Some route_not_found)))"

section \<open>Notions used to state the properties\<close>

text \<open>
  A parameter has a leading integer when, after white space and at most one sign, it goes
  on with a decimal digit.
\<close>

definition leading_integer :: "string \<Rightarrow> bool" where
  "leading_integer p =
     (case dropWhile is_white_space p of
        [] \<Rightarrow> False
      | c # cs \<Rightarrow>
          if c = CHR ''+'' \<or> c = CHR ''-'' then (case cs of [] \<Rightarrow> False | d # _ \<Rightarrow> is_digit d)
          else is_digit c)"

text \<open>
  A parameter is an integer when it is one optional sign followed by decimal digits and
  nothing else.
\<close>

definition integer_literal :: "string \<Rightarrow> bool" where
  "integer_literal p =
     (case p of
        [] \<Rightarrow> False
      | c # cs \<Rightarrow>
          if c = CHR ''+'' \<or> c = CHR ''-'' then cs \<noteq> [] \<and> list_all is_digit cs
          else list_all is_digit p)"

text \<open>
  The labels of an order, and the headers of the orders that have a label, both in the
  order of the store.
\<close>

definition matching :: "store \<Rightarrow> int \<Rightarrow> label list" where
  "matching s n = filter (\<lambda>l. label.OrderNr l = n) (Labels s)"

definition valid_orders :: "store \<Rightarrow> order_header list" where
  "valid_orders s =
     filter (\<lambda>h. order_header.OrderNr h \<in> label.OrderNr ` set (Labels s)) (OrderHeaders s)"

section \<open>Example stores\<close>

text \<open>
  Order 7 has a header and two labels, the second with empty or zero optional fields and
  an empty barcode; order 8 has a header and no label; order 9 has no header and one
  label, without \<open>PlantDate\<close> and \<open>UOM\<close>.
\<close>

definition header7 :: order_header where
  "header7 = \<lparr> order_header.OrderNr = 7, order_header.other = [(''Customer'', Str ''Acme'')] \<rparr>"

definition header8 :: order_header where
  "header8 = \<lparr> order_header.OrderNr = 8, order_header.other = [] \<rparr>"

definition label7 :: label where
  "label7 =
     \<lparr> label.OrderNr = 7, label.PlantDate = Str ''2024-05-01'', label.ItemNumber = Str ''X1'',
       label.Quantity = Num 2, label.ItemDescription = Str ''Desk'',
       label.PickAreaName = Str ''A'', label.SmallText = Undefined, label.UOM = Str ''EA'',
       barcodeId = Undefined, label.other = [] \<rparr>"

definition label7_blank :: label where
  "label7_blank =
     \<lparr> label.OrderNr = 7, label.PlantDate = Str [], label.ItemNumber = Str ''X2'',
       label.Quantity = Num 1, label.ItemDescription = Str ''Leg'',
       label.PickAreaName = Str ''B'', label.SmallText = Str [], label.UOM = Num 0,
       barcodeId = Str [], label.other = [] \<rparr>"

definition label9 :: label where
  "label9 =
     \<lparr> label.OrderNr = 9, label.PlantDate = Undefined, label.ItemNumber = Str ''Y4'',
       label.Quantity = Num 5, label.ItemDescription = Str ''Screw'',
       label.PickAreaName = Str ''C'', label.SmallText = Str ''fragile'', label.UOM = Undefined,
       barcodeId = Str ''B123'', label.other = [(''_id'', Num 1)] \<rparr>"

definition demo_store :: store where
  "demo_store =
     \<lparr> Labels = [label7, label7_blank, label9], OrderHeaders = [header7, header8],
       fault = (\<lambda>q. None) \<rparr>"

definition blank_store :: store where
  "blank_store = \<lparr> Labels = [label7_blank], OrderHeaders = [], fault = (\<lambda>q. None) \<rparr>"

definition empty_store :: store where
  "empty_store = \<lparr> Labels = [], OrderHeaders = [], fault = (\<lambda>q. None) \<rparr>"

text \<open>
  Two stores that raise errors: one rejects every query, the other only the query on
  \<open>OrderHeaders\<close>.
\<close>

definition broken_store :: store where
  "broken_store = demo_store \<lparr> fault := (\<lambda>q. Some ''connection lost'') \<rparr>"

definition headers_down_store :: store where
  "headers_down_store =
     demo_store \<lparr> fault :=
       (\<lambda>q. case q of OrderHeaders_find_in vs \<Rightarrow> Some ''timeout'' | _ \<Rightarrow> None) \<rparr>"

text \<open>
  The order detail objects that the handler builds for orders 7 and 9 of \<open>demo_store\<close>
  and for order 7 of \<open>blank_store\<close>.
\<close>

definition demo_detail7 :: order_detail where
  "demo_detail7 =
     \<lparr> order_detail.OrderNr = 7, order_detail.PlantDate = Str ''2024-05-01'',
       Details =
         [\<lparr> detail.ItemNumber = Str ''X1'', detail.Quantity = Num 2,
             detail.ItemDescription = Str ''Desk'', detail.PickAreaName = Str ''A'',
             detail.SmallText = Null, detail.UOM = Str ''EA'', BarcodeID = Str ''7-X1'' \<rparr>,
          \<lparr> detail.ItemNumber = Str ''X2'', detail.Quantity = Num 1,
             detail.ItemDescription = Str ''Leg'', detail.PickAreaName = Str ''B'',
             detail.SmallText = Null, detail.UOM = Null, BarcodeID = Str ''7-X2'' \<rparr>] \<rparr>"

definition demo_detail9 :: order_detail where
  "demo_detail9 =
     \<lparr> order_detail.OrderNr = 9, order_detail.PlantDate = Null,
       Details =
         [\<lparr> detail.ItemNumber = Str ''Y4'', detail.Quantity = Num 5,
             detail.ItemDescription = Str ''Screw'', detail.PickAreaName = Str ''C'',
             detail.SmallText = Str ''fragile'', detail.UOM = Null,
             BarcodeID = Str ''B123'' \<rparr>] \<rparr>"

definition blank_detail7 :: order_detail where
  "blank_detail7 =
     \<lparr> order_detail.OrderNr = 7, order_detail.PlantDate = Null,
       Details =
         [\<lparr> detail.ItemNumber = Str ''X2'', detail.Quantity = Num 1,
             detail.ItemDescription = Str ''Leg'', detail.PickAreaName = Str ''B'',
             detail.SmallText = Null, detail.UOM = Null, BarcodeID = Str ''7-X2'' \<rparr>] \<rparr>"

lemmas demo_defs = demo_store_def blank_store_def empty_store_def broken_store_def
  header7_def header8_def label7_def label7_blank_def label9_def

lemmas eval_defs = order_headers_def order_details_def labels_by_barcode_def
  distinct_OrderNr_def find_OrderHeaders_in_def find_Labels_def findOne_Label_def
  js_parseInt_def is_white_space_def is_digit_def digits_value_def digit_value_def
  detail_of_def js_or_def number_to_string_def show_number_def to_double_def
  show_int_def show_nat.simps digit_char_def matching_def queries_def

lemmas double_defs = round_to_53_bits_def bit_length.simps digit_count.simps Let_def
  show_double_def shortest_from.simps shortest_candidate_def strip_zeros_def

section \<open>Parsing and printing numbers\<close>

lemma is_digit_not_white_space: "is_digit c \<Longrightarrow> \<not> is_white_space c"
  by (auto simp: is_digit_def is_white_space_def)

lemma is_digit_not_sign: "is_digit c \<Longrightarrow> c \<noteq> CHR ''+'' \<and> c \<noteq> CHR ''-''"
  by (auto simp: is_digit_def)

lemma takeWhile_eq_Nil_iff:
  "takeWhile P xs = [] \<longleftrightarrow> (case xs of [] \<Rightarrow> True | x # _ \<Rightarrow> \<not> P x)"
  by (cases xs) auto

text \<open>
  \<open>parseInt\<close> fails exactly on the parameters without a leading integer.
\<close>

lemma js_parseInt_NaN_iff: "js_parseInt p = NaN \<longleftrightarrow> \<not> leading_integer p"
proof (cases "dropWhile is_white_space p")
  case Nil
  show ?thesis unfolding js_parseInt_def leading_integer_def Nil by simp
next
  case (Cons c cs)
  show ?thesis
  proof (cases "c = CHR ''+'' \<or> c = CHR ''-''")
    case True
    then show ?thesis
      unfolding js_parseInt_def leading_integer_def Cons
      by (auto simp: takeWhile_eq_Nil_iff Let_def split: list.splits option.splits)
  next
    case False
    then show ?thesis
      unfolding js_parseInt_def leading_integer_def Cons
      by (simp add: takeWhile_eq_Nil_iff Let_def split: option.splits)
  qed
qed

lemma takeWhile_digits:
  assumes "list_all is_digit ds" and "rest = [] \<or> \<not> is_digit (hd rest)"
  shows "takeWhile is_digit (ds @ rest) = ds"
  using assms by (induction ds) (auto simp: takeWhile_eq_Nil_iff split: list.splits)

text \<open>
  A run of digits is read to its end, whatever follows it, and a sign before it is
  applied; the value read is the value of the digits when that is at most \<open>2^53\<close>.
\<close>

lemma to_double_exact: "m \<le> 2 ^ 53 \<Longrightarrow> to_double m = Some m"
  by (simp add: to_double_def)

lemma js_parseInt_prefix:
  assumes "ds \<noteq> []" and "list_all is_digit ds" and "rest = [] \<or> \<not> is_digit (hd rest)"
    and "digits_value ds \<le> 2 ^ 53"
  shows "js_parseInt (ds @ rest) = Integer (int (digits_value ds))"
proof -
  obtain d ds' where ds: "ds = d # ds'" using assms(1) by (cases ds) auto
  have d: "is_digit d" using assms(2) ds by simp
  have 1: "dropWhile is_white_space (ds @ rest) = ds @ rest"
    using d ds by (simp add: is_digit_not_white_space)
  show ?thesis
    using assms(1) d is_digit_not_sign[OF d] takeWhile_digits[OF assms(2,3)]
      to_double_exact[OF assms(4)]
    unfolding js_parseInt_def 1 by (simp add: ds Let_def)
qed

lemma js_parseInt_signed_prefix:
  assumes "sg = [] \<or> sg = ''+'' \<or> sg = ''-''" and "ds \<noteq> []" and "list_all is_digit ds"
    and "rest = [] \<or> \<not> is_digit (hd rest)" and "digits_value ds \<le> 2 ^ 53"
  shows "js_parseInt (sg @ ds @ rest) =
           Integer ((if sg = ''-'' then - 1 else 1) * int (digits_value ds))"
proof (cases "sg = []")
  case True
  then show ?thesis using js_parseInt_prefix[OF assms(2,3,4,5)] by simp
next
  case False
  then obtain c where sg: "sg = [c]" and c: "c = CHR ''+'' \<or> c = CHR ''-''"
    using assms(1) by auto
  have ws: "\<not> is_white_space c" using c by (auto simp: is_white_space_def)
  have "dropWhile is_white_space (sg @ ds @ rest) = c # ds @ rest"
    using ws sg by simp
  then show ?thesis
    using c assms(2) takeWhile_digits[OF assms(3,4)] sg to_double_exact[OF assms(5)]
    unfolding js_parseInt_def by (auto simp: Let_def)
qed


text \<open>
  The decimal text of an integer: digits only, with the integer as their value. Up to
  \<open>2^53\<close> it is the text that the code prints for the number, and reading it gives the
  number back.
\<close>

lemma below_ten:
  "d < 10 \<Longrightarrow> d \<in> {0, 1, 2, 3, 4, 5, 6, 7, 8, 9::nat}"
  by auto

lemma digit_char_props:
  assumes "d < 10"
  shows "is_digit (digit_char d)" and "digit_value (digit_char d) = d"
  using below_ten[OF assms] by (auto simp: digit_char_def is_digit_def digit_value_def)

lemma digits_value_snoc: "digits_value (xs @ [c]) = 10 * digits_value xs + digit_value c"
  by (simp add: digits_value_def)

lemma show_nat_digits: "list_all is_digit (show_nat n) \<and> show_nat n \<noteq> []"
proof (induction n rule: show_nat.induct)
  case (1 n)
  show ?case
  proof (cases "n < 10")
    case True
    then show ?thesis by (simp add: show_nat.simps[of n] digit_char_props)
  next
    case False
    then show ?thesis using 1 by (simp add: show_nat.simps[of n] digit_char_props)
  qed
qed

lemma digits_value_show_nat: "digits_value (show_nat n) = n"
proof (induction n rule: show_nat.induct)
  case (1 n)
  show ?case
  proof (cases "n < 10")
    case True
    then show ?thesis by (simp add: show_nat.simps[of n] digit_char_props digits_value_def)
  next
    case False
    then show ?thesis
      using 1 by (simp add: show_nat.simps[of n] digits_value_snoc digit_char_props)
  qed
qed


lemma js_parseInt_show_int:
  assumes "\<bar>n\<bar> \<le> 2 ^ 53"
  shows "js_parseInt (show_int n) = Integer n"
proof (cases "n < 0")
  case True
  have "nat (- n) \<le> 2 ^ 53" using assms True by (simp add: nat_le_iff)
  then have "js_parseInt (''-'' @ show_nat (nat (- n)) @ []) =
          Integer ((if ''-'' = ''-'' then - 1 else 1) * int (digits_value (show_nat (nat (- n)))))"
    by (intro js_parseInt_signed_prefix) (simp_all add: show_nat_digits digits_value_show_nat)
  then show ?thesis using True by (simp add: show_int_def digits_value_show_nat)
next
  case False
  have "nat n \<le> 2 ^ 53" using assms False by (simp add: nat_le_iff)
  then have "js_parseInt (show_nat (nat n) @ []) =
      Integer (int (digits_value (show_nat (nat n))))"
    by (intro js_parseInt_prefix) (simp_all add: show_nat_digits digits_value_show_nat)
  then show ?thesis using False by (simp add: show_int_def digits_value_show_nat)
qed

text \<open>
  Above \<open>2^53\<close> the value read and the text printed are those of the nearest double.
\<close>

lemma js_parseInt_rounds:
  "js_parseInt ''9007199254740993'' = Integer 9007199254740992"
  by (simp add: eval_defs double_defs)

lemma digits_value_zeros:
  "digits_value (ds @ replicate k (CHR ''0'')) = digits_value ds * 10 ^ k"
proof (induction k)
  case 0
  then show ?case by simp
next
  case (Suc k)
  have "ds @ replicate (Suc k) (CHR ''0'') = (ds @ replicate k (CHR ''0'')) @ [CHR ''0'']"
    by (simp add: replicate_append_same)
  then have "digits_value (ds @ replicate (Suc k) (CHR ''0'')) =
      10 * digits_value (ds @ replicate k (CHR ''0'')) + digit_value (CHR ''0'')"
    by (simp only: digits_value_snoc)
  then show ?case
    using Suc by (simp add: digit_value_def)
qed

lemma js_parseInt_overflows:
  "js_parseInt (''1'' @ replicate 309 (CHR ''0'')) = PosInfinity"
proof -
  let ?ds = "''1'' @ replicate 309 (CHR ''0'')"
  have v: "digits_value ?ds = 10 ^ 309"
    unfolding digits_value_zeros by (simp add: digits_value_def digit_value_def)
  have all: "list_all is_digit ?ds"
    by (simp add: list_all_iff is_digit_def)
  have t: "takeWhile is_digit (?ds @ []) = ?ds"
    by (rule takeWhile_digits[OF all]) simp
  have d: "dropWhile is_white_space ?ds = ?ds"
    by (simp add: is_white_space_def)
  have inf: "to_double (10 ^ 309) = None"
    by (simp add: to_double_def)
  show ?thesis
    unfolding js_parseInt_def d using t v inf by (simp add: Let_def)
qed

lemma number_to_string_rounds:
  "number_to_string (2 ^ 60) = ''1152921504606847000''"
  by (simp add: eval_defs double_defs)

lemma number_to_string_exponent:
  "number_to_string (10 ^ 21) = ''1e+21''"
  by (simp add: eval_defs double_defs)

lemma number_to_string_fraction:
  "number_to_string (- (2 ^ 70)) = ''-1.1805916207174113e+21''"
  by (simp add: eval_defs double_defs)

section \<open>The handlers, case by case\<close>

lemma order_headers_no_fault:
  assumes "fault s Labels_distinct_OrderNr = None"
    and "fault s (OrderHeaders_find_in (remdups (map label.OrderNr (Labels s)))) = None"
  shows "order_headers s =
     (if Labels s = [] then
        ([Query Labels_distinct_OrderNr,
          console_warn ''[WARN] No valid orders found in Labels.''],
         Response 404 (ErrorJson ''No valid orders found.''))
      else if valid_orders s = [] then
        ([Query Labels_distinct_OrderNr,
          Query (OrderHeaders_find_in (remdups (map label.OrderNr (Labels s)))),
          console_warn ''[WARN] No matching orders found in OrderHeaders.''],
         Response 404 (ErrorJson ''No matching orders found.''))
      else
        ([Query Labels_distinct_OrderNr,
          Query (OrderHeaders_find_in (remdups (map label.OrderNr (Labels s))))],
         Response 200 (OrdersJson (valid_orders s))))"
  using assms
  by (simp add: order_headers_def distinct_OrderNr_def find_OrderHeaders_in_def
      valid_orders_def)

lemma order_headers_200:
  assumes "snd (order_headers s) = Response 200 b"
  shows "b = OrdersJson (valid_orders s) \<and> valid_orders s \<noteq> []"
  using assms
  by (auto simp: order_headers_def distinct_OrderNr_def find_OrderHeaders_in_def
      valid_orders_def split: option.splits if_splits)

lemma order_details_NaN:
  assumes "js_parseInt p = NaN"
  shows "order_details s p = ([], Response 400 (ErrorJson ''OrderNr must be a valid number.''))"
  using assms by (simp add: order_details_def)

lemma order_details_fault:
  assumes "js_parseInt p = Integer n" and "fault s (Labels_find n) = Some e"
  shows "order_details s p =
           ([Query (Labels_find n),
             console_error (''[ERROR] Error fetching order details: '' @ e)],
            Response 500 (ErrorJson ''Error fetching order details.''))"
  using assms by (simp add: order_details_def find_Labels_def)

lemma order_details_no_fault:
  assumes "js_parseInt p = Integer n" and "fault s (Labels_find n) = None"
  shows "order_details s p =
           (if matching s n = [] then
              ([Query (Labels_find n)],
               Response 404
                 (ErrorJson (''No valid labels found for OrderNr: '' @ number_to_string n)))
            else
              ([Query (Labels_find n)],
               Response 200
                 (DetailJson
                   \<lparr> order_detail.OrderNr = n,
                     order_detail.PlantDate = js_or (label.PlantDate (hd (matching s n))) Null,
                     Details = map (detail_of n) (matching s n) \<rparr>)))"
  using assms
  by (cases "filter (\<lambda>l. label.OrderNr l = n) (Labels s)")
     (simp_all add: order_details_def find_Labels_def matching_def)

lemma order_details_Infinity_status:
  "status (snd (order_details_Infinity s negative)) = 404 \<or>
   status (snd (order_details_Infinity s negative)) = 500"
  by (simp add: order_details_Infinity_def split: option.splits)

lemma order_details_not_400:
  assumes "js_parseInt p \<noteq> NaN"
  shows "status (snd (order_details s p)) \<noteq> 400"
proof (cases "js_parseInt p")
  case NaN
  then show ?thesis using assms by simp
next
  case (Integer n)
  show ?thesis
  proof (cases "fault s (Labels_find n)")
    case None
    then show ?thesis by (simp add: order_details_no_fault[OF Integer])
  next
    case (Some e)
    then show ?thesis by (simp add: order_details_fault[OF Integer])
  qed
next
  case PosInfinity
  then show ?thesis
    using order_details_Infinity_status[of s False] by (auto simp: order_details_def)
next
  case NegInfinity
  then show ?thesis
    using order_details_Infinity_status[of s True] by (auto simp: order_details_def)
qed

lemma order_details_200:
  assumes "snd (order_details s p) = Response 200 (DetailJson d)"
  shows "\<exists>n. js_parseInt p = Integer n \<and> fault s (Labels_find n) = None \<and> matching s n \<noteq> [] \<and>
           d = \<lparr> order_detail.OrderNr = n,
                 order_detail.PlantDate = js_or (label.PlantDate (hd (matching s n))) Null,
                 Details = map (detail_of n) (matching s n) \<rparr>"
proof (cases "js_parseInt p")
  case NaN
  then show ?thesis using assms by (simp add: order_details_NaN)
next
  case (Integer n)
  show ?thesis
  proof (cases "fault s (Labels_find n)")
    case None
    then show ?thesis
      using assms Integer by (auto simp: order_details_no_fault split: if_splits)
  next
    case (Some e)
    then show ?thesis using assms Integer by (simp add: order_details_fault)
  qed
next
  case PosInfinity
  then show ?thesis
    using assms order_details_Infinity_status[of s False] by (auto simp: order_details_def)
next
  case NegInfinity
  then show ?thesis
    using assms order_details_Infinity_status[of s True] by (auto simp: order_details_def)
qed

lemma order_details_200_body:
  assumes "snd (order_details s p) = Response 200 b"
  shows "\<exists>d. b = DetailJson d \<and> Details d \<noteq> []"
  using assms
  by (auto simp: order_details_def order_details_Infinity_def find_Labels_def
      split: number.splits option.splits list.splits)

text \<open>
  A store error reaches the response as the status 500 only: the response of a handler
  is the same for any two stores that differ in the messages of their errors.
\<close>

lemma order_headers_raised:
  assumes "\<exists>q\<in>set (queries (fst (order_headers s))). fault s q \<noteq> None"
  shows "snd (order_headers s) = Response 500 (ErrorJson ''Error fetching valid orders.'')"
  using assms
  by (auto simp: order_headers_def distinct_OrderNr_def find_OrderHeaders_in_def queries_def
      split: option.splits if_splits)

lemma order_details_raised:
  assumes "\<exists>q\<in>set (queries (fst (order_details s p))). fault s q \<noteq> None"
  shows "snd (order_details s p) = Response 500 (ErrorJson ''Error fetching order details.'')"
  using assms
  by (auto simp: order_details_def order_details_Infinity_def find_Labels_def queries_def
      split: option.splits number.splits list.splits)

lemma labels_by_barcode_raised:
  assumes "\<exists>q\<in>set (queries (fst (labels_by_barcode s b))). fault s q \<noteq> None"
  shows "snd (labels_by_barcode s b) = Response 500 (ErrorJson ''Error fetching label.'')"
  using assms
  by (auto simp: labels_by_barcode_def findOne_Label_def queries_def
      split: option.splits if_splits)

lemma order_headers_fault_blind:
  assumes "\<forall>q. (f q = None) = (fault s q = None)"
  shows "snd (order_headers (s\<lparr>fault := f\<rparr>)) = snd (order_headers s)"
proof -
  have 1: "(f Labels_distinct_OrderNr = None) = (fault s Labels_distinct_OrderNr = None)"
    using assms by blast
  have 2: "(f (OrderHeaders_find_in (remdups (map label.OrderNr (Labels s)))) = None) =
      (fault s (OrderHeaders_find_in (remdups (map label.OrderNr (Labels s)))) = None)"
    using assms by blast
  show ?thesis
    using 1 2
    by (auto simp: order_headers_def distinct_OrderNr_def find_OrderHeaders_in_def
        split: option.splits)
qed

lemma order_details_Infinity_fault_blind:
  assumes "\<forall>q. (f q = None) = (fault s q = None)"
  shows "snd (order_details_Infinity (s\<lparr>fault := f\<rparr>) negative) =
           snd (order_details_Infinity s negative)"
proof -
  have "(f (Labels_find_Infinity negative) = None) =
      (fault s (Labels_find_Infinity negative) = None)"
    using assms by blast
  then show ?thesis
    by (cases "fault s (Labels_find_Infinity negative)";
        cases "f (Labels_find_Infinity negative)")
       (simp_all add: order_details_Infinity_def)
qed

lemma order_details_fault_blind:
  assumes "\<forall>q. (f q = None) = (fault s q = None)"
  shows "snd (order_details (s\<lparr>fault := f\<rparr>) p) = snd (order_details s p)"
proof (cases "js_parseInt p")
  case NaN
  then show ?thesis by (simp add: order_details_NaN)
next
  case (Integer n)
  have "(f (Labels_find n) = None) = (fault s (Labels_find n) = None)"
    using assms by blast
  then show ?thesis
    using Integer
    by (auto simp: order_details_def find_Labels_def split: option.splits list.splits)
next
  case PosInfinity
  then show ?thesis
    using order_details_Infinity_fault_blind[OF assms] by (simp add: order_details_def)
next
  case NegInfinity
  then show ?thesis
    using order_details_Infinity_fault_blind[OF assms] by (simp add: order_details_def)
qed

lemma labels_by_barcode_fault_blind:
  assumes "\<forall>q. (f q = None) = (fault s q = None)"
  shows "snd (labels_by_barcode (s\<lparr>fault := f\<rparr>) b) = snd (labels_by_barcode s b)"
proof -
  have "(f (Labels_findOne b) = None) = (fault s (Labels_findOne b) = None)"
    using assms by blast
  then show ?thesis
    by (auto simp: labels_by_barcode_def findOne_Label_def split: option.splits)
qed

text \<open>The label that \<open>findOne\<close> returns is the first one that matches.\<close>

lemma find_None_iff_all: "find P xs = None \<longleftrightarrow> (\<forall>x\<in>set xs. \<not> P x)"
  by (induction xs) auto

lemma find_first:
  assumes "\<exists>x\<in>set xs. P x"
  shows "\<exists>i<length xs. P (xs ! i) \<and> (\<forall>j<i. \<not> P (xs ! j)) \<and> find P xs = Some (xs ! i)"
proof -
  obtain x where x: "find P xs = Some x"
    using assms find_None_iff_all[of P xs] by (cases "find P xs") auto
  then show ?thesis unfolding find_Some_iff by blast
qed

section \<open>The order listing\<close>

text \<open>
  Claim C1. When the store raises no error, every order header whose \<open>OrderNr\<close> is the
  \<open>OrderNr\<close> of some label is in the array of a 200 response. Whatever the store does, the
  array of a 200 response is exactly the stored headers whose \<open>OrderNr\<close> some label has, in
  store order, and so holds no header whose \<open>OrderNr\<close> no label has.
\<close>

theorem order_headers_exactly_valid:
  "(fault s Labels_distinct_OrderNr = None \<and> (\<forall>vs. fault s (OrderHeaders_find_in vs) = None)
      \<longrightarrow> (\<forall>h\<in>set (OrderHeaders s).
             order_header.OrderNr h \<in> label.OrderNr ` set (Labels s) \<longrightarrow>
             (\<exists>orders. snd (order_headers s) = Response 200 (OrdersJson orders) \<and>
                       h \<in> set orders)))
   \<and> (\<forall>orders. snd (order_headers s) = Response 200 (OrdersJson orders) \<longrightarrow>
         orders =
           filter (\<lambda>h. order_header.OrderNr h \<in> label.OrderNr ` set (Labels s))
             (OrderHeaders s))
   \<and> (\<forall>orders h. snd (order_headers s) = Response 200 (OrdersJson orders) \<and>
         order_header.OrderNr h \<notin> label.OrderNr ` set (Labels s) \<longrightarrow> h \<notin> set orders)"
proof (intro conjI impI allI ballI)
  fix h
  assume ok: "fault s Labels_distinct_OrderNr = None \<and>
      (\<forall>vs. fault s (OrderHeaders_find_in vs) = None)"
    and h: "h \<in> set (OrderHeaders s)"
    and v: "order_header.OrderNr h \<in> label.OrderNr ` set (Labels s)"
  have in_valid: "h \<in> set (valid_orders s)" using h v by (simp add: valid_orders_def)
  then have "valid_orders s \<noteq> []" and "Labels s \<noteq> []" using v by auto
  then have "snd (order_headers s) = Response 200 (OrdersJson (valid_orders s))"
    using ok by (simp add: order_headers_no_fault)
  then show "\<exists>orders. snd (order_headers s) = Response 200 (OrdersJson orders) \<and> h \<in> set orders"
    using in_valid by blast
next
  fix orders
  assume "snd (order_headers s) = Response 200 (OrdersJson orders)"
  from order_headers_200[OF this]
  show "orders = filter (\<lambda>h. order_header.OrderNr h \<in> label.OrderNr ` set (Labels s))
      (OrderHeaders s)"
    by (simp add: valid_orders_def)
next
  fix orders and h :: order_header
  assume "snd (order_headers s) = Response 200 (OrdersJson orders) \<and>
      order_header.OrderNr h \<notin> label.OrderNr ` set (Labels s)"
  then show "h \<notin> set orders"
    using order_headers_200[of s "OrdersJson orders"] by (auto simp: valid_orders_def)
qed

theorem order_headers_exactly_valid_witness:
  "fault demo_store Labels_distinct_OrderNr = None \<and>
   header7 \<in> set (OrderHeaders demo_store) \<and>
   order_header.OrderNr header7 \<in> label.OrderNr ` set (Labels demo_store) \<and>
   snd (order_headers demo_store) = Response 200 (OrdersJson [header7]) \<and>
   header8 \<in> set (OrderHeaders demo_store) \<and>
   order_header.OrderNr header8 \<notin> label.OrderNr ` set (Labels demo_store) \<and>
   header8 \<notin> set [header7]"
  using order_headers_exactly_valid[of demo_store]
  by (simp add: demo_defs eval_defs)

text \<open>
  Claim C5. When the distinct query returns no order number the response is 404 with
  the message \<open>No valid orders found.\<close>; when it returns some and the query on the headers
  returns no document the response is 404 with the message \<open>No matching orders found.\<close>,
  and the two bodies differ.
\<close>

theorem order_headers_two_not_found_cases:
  "(distinct_OrderNr s = Inr [] \<longrightarrow>
      snd (order_headers s) = Response 404 (ErrorJson ''No valid orders found.''))
   \<and> (\<forall>validOrderNumbers.
        distinct_OrderNr s = Inr validOrderNumbers \<and> validOrderNumbers \<noteq> [] \<and>
        find_OrderHeaders_in s validOrderNumbers = Inr [] \<longrightarrow>
        snd (order_headers s) = Response 404 (ErrorJson ''No matching orders found.''))
   \<and> ErrorJson ''No valid orders found.'' \<noteq> ErrorJson ''No matching orders found.''"
  by (simp add: order_headers_def)

theorem order_headers_two_not_found_cases_witness:
  "distinct_OrderNr empty_store = Inr [] \<and>
   snd (order_headers empty_store) = Response 404 (ErrorJson ''No valid orders found.'') \<and>
   distinct_OrderNr blank_store = Inr [7] \<and>
   find_OrderHeaders_in blank_store [7] = Inr [] \<and>
   snd (order_headers blank_store) = Response 404 (ErrorJson ''No matching orders found.'')"
  using order_headers_two_not_found_cases[of empty_store]
    order_headers_two_not_found_cases[of blank_store]
  by (simp add: demo_defs distinct_OrderNr_def find_OrderHeaders_in_def)

section \<open>The order details\<close>

text \<open>
  Claim C2, as stated, fails: a first label whose \<open>PlantDate\<close> is present and is the empty
  string gives the \<open>PlantDate\<close> \<open>null\<close>, not the label's, and likewise an empty
  \<open>SmallText\<close> and a \<open>UOM\<close> of 0 give \<open>null\<close>.
\<close>

theorem order_details_falsy_plant_date_counterexample:
  "Labels blank_store = [label7_blank] \<and> label.PlantDate label7_blank = Str [] \<and>
   label.SmallText label7_blank = Str [] \<and> label.UOM label7_blank = Num 0 \<and>
   order_details blank_store ''7'' =
     ([Query (Labels_find 7)], Response 200 (DetailJson blank_detail7)) \<and>
   order_detail.PlantDate blank_detail7 = Null \<and>
   map detail.SmallText (Details blank_detail7) = [Null] \<and>
   map detail.UOM (Details blank_detail7) = [Null]"
  by (simp add: demo_defs eval_defs blank_detail7_def)

text \<open>
  Claim C2, amended. For a parameter that parses to the integer \<open>n\<close>, on a store that
  raises no error: with no label of order \<open>n\<close> the response is 404 and its message ends
  with \<open>n\<close> as the code prints a number; otherwise it is 200 with \<open>OrderNr = n\<close>, with the
  \<open>PlantDate\<close> of the first label of the order when that value is truthy and \<open>null\<close> when
  it is absent or falsy, and with one entry of \<open>Details\<close> for each label of the order, in
  order, carrying the label's \<open>ItemNumber\<close>, \<open>Quantity\<close>, \<open>ItemDescription\<close> and
  \<open>PickAreaName\<close>, its \<open>SmallText\<close> and \<open>UOM\<close> when truthy and \<open>null\<close> when absent or
  falsy, and a \<open>BarcodeID\<close>.
\<close>

theorem order_details_found_or_404:
  assumes "js_parseInt p = Integer n" and "fault s (Labels_find n) = None"
  shows "(matching s n = [] \<longrightarrow>
            snd (order_details s p) =
              Response 404 (ErrorJson (''No valid labels found for OrderNr: '' @ number_to_string n)))
       \<and> (matching s n \<noteq> [] \<longrightarrow>
            (\<exists>d. snd (order_details s p) = Response 200 (DetailJson d)
               \<and> order_detail.OrderNr d = n
               \<and> order_detail.PlantDate d =
                   (if truthy (label.PlantDate (hd (matching s n)))
                    then label.PlantDate (hd (matching s n)) else Null)
               \<and> (label.PlantDate (hd (matching s n)) = Undefined \<longrightarrow>
                    order_detail.PlantDate d = Null)
               \<and> length (Details d) = length (matching s n)
               \<and> (\<forall>i<length (matching s n).
                     detail.ItemNumber (Details d ! i) = label.ItemNumber (matching s n ! i)
                   \<and> detail.Quantity (Details d ! i) = label.Quantity (matching s n ! i)
                   \<and> detail.ItemDescription (Details d ! i) =
                       label.ItemDescription (matching s n ! i)
                   \<and> detail.PickAreaName (Details d ! i) =
                       label.PickAreaName (matching s n ! i)
                   \<and> detail.SmallText (Details d ! i) =
                       (if truthy (label.SmallText (matching s n ! i))
                        then label.SmallText (matching s n ! i) else Null)
                   \<and> (label.SmallText (matching s n ! i) = Undefined \<longrightarrow>
                        detail.SmallText (Details d ! i) = Null)
                   \<and> detail.UOM (Details d ! i) =
                       (if truthy (label.UOM (matching s n ! i))
                        then label.UOM (matching s n ! i) else Null)
                   \<and> (label.UOM (matching s n ! i) = Undefined \<longrightarrow>
                        detail.UOM (Details d ! i) = Null)
                   \<and> (BarcodeID (Details d ! i) = barcodeId (matching s n ! i)
                      \<or> BarcodeID (Details d ! i) =
                          Str (number_to_string n @ ''-'' @
                               to_string (label.ItemNumber (matching s n ! i)))))))"
proof (intro conjI impI)
  assume "matching s n = []"
  then show "snd (order_details s p) =
      Response 404 (ErrorJson (''No valid labels found for OrderNr: '' @ number_to_string n))"
    by (simp add: order_details_no_fault[OF assms])
next
  assume ne: "matching s n \<noteq> []"
  let ?d = "\<lparr> order_detail.OrderNr = n,
              order_detail.PlantDate = js_or (label.PlantDate (hd (matching s n))) Null,
              Details = map (detail_of n) (matching s n) \<rparr>"
  have r: "snd (order_details s p) = Response 200 (DetailJson ?d)"
    using ne by (simp add: order_details_no_fault[OF assms])
  have entries: "\<forall>i<length (matching s n).
      detail.ItemNumber (Details ?d ! i) = label.ItemNumber (matching s n ! i)
    \<and> detail.Quantity (Details ?d ! i) = label.Quantity (matching s n ! i)
    \<and> detail.ItemDescription (Details ?d ! i) = label.ItemDescription (matching s n ! i)
    \<and> detail.PickAreaName (Details ?d ! i) = label.PickAreaName (matching s n ! i)
    \<and> detail.SmallText (Details ?d ! i) =
        (if truthy (label.SmallText (matching s n ! i))
         then label.SmallText (matching s n ! i) else Null)
    \<and> (label.SmallText (matching s n ! i) = Undefined \<longrightarrow>
         detail.SmallText (Details ?d ! i) = Null)
    \<and> detail.UOM (Details ?d ! i) =
        (if truthy (label.UOM (matching s n ! i)) then label.UOM (matching s n ! i) else Null)
    \<and> (label.UOM (matching s n ! i) = Undefined \<longrightarrow> detail.UOM (Details ?d ! i) = Null)
    \<and> (BarcodeID (Details ?d ! i) = barcodeId (matching s n ! i)
       \<or> BarcodeID (Details ?d ! i) =
           Str (number_to_string n @ ''-'' @ to_string (label.ItemNumber (matching s n ! i))))"
    by (simp add: detail_of_def js_or_def)
  have "order_detail.OrderNr ?d = n
     \<and> order_detail.PlantDate ?d =
         (if truthy (label.PlantDate (hd (matching s n)))
          then label.PlantDate (hd (matching s n)) else Null)
     \<and> (label.PlantDate (hd (matching s n)) = Undefined \<longrightarrow> order_detail.PlantDate ?d = Null)
     \<and> length (Details ?d) = length (matching s n)"
    by (simp add: js_or_def)
  with r entries
  show "\<exists>d. snd (order_details s p) = Response 200 (DetailJson d)
       \<and> order_detail.OrderNr d = n
       \<and> order_detail.PlantDate d =
           (if truthy (label.PlantDate (hd (matching s n)))
            then label.PlantDate (hd (matching s n)) else Null)
       \<and> (label.PlantDate (hd (matching s n)) = Undefined \<longrightarrow>
            order_detail.PlantDate d = Null)
       \<and> length (Details d) = length (matching s n)
       \<and> (\<forall>i<length (matching s n).
             detail.ItemNumber (Details d ! i) = label.ItemNumber (matching s n ! i)
           \<and> detail.Quantity (Details d ! i) = label.Quantity (matching s n ! i)
           \<and> detail.ItemDescription (Details d ! i) =
               label.ItemDescription (matching s n ! i)
           \<and> detail.PickAreaName (Details d ! i) =
               label.PickAreaName (matching s n ! i)
           \<and> detail.SmallText (Details d ! i) =
               (if truthy (label.SmallText (matching s n ! i))
                then label.SmallText (matching s n ! i) else Null)
           \<and> (label.SmallText (matching s n ! i) = Undefined \<longrightarrow>
                detail.SmallText (Details d ! i) = Null)
           \<and> detail.UOM (Details d ! i) =
               (if truthy (label.UOM (matching s n ! i))
                then label.UOM (matching s n ! i) else Null)
           \<and> (label.UOM (matching s n ! i) = Undefined \<longrightarrow>
                detail.UOM (Details d ! i) = Null)
           \<and> (BarcodeID (Details d ! i) = barcodeId (matching s n ! i)
              \<or> BarcodeID (Details d ! i) =
                  Str (number_to_string n @ ''-'' @
                       to_string (label.ItemNumber (matching s n ! i)))))"
    by blast
qed

theorem order_details_found_or_404_witness:
  "js_parseInt ''7'' = Integer 7 \<and> fault demo_store (Labels_find 7) = None \<and>
   matching demo_store 7 = [label7, label7_blank] \<and>
   snd (order_details demo_store ''7'') = Response 200 (DetailJson demo_detail7) \<and>
   js_parseInt ''42'' = Integer 42 \<and> fault demo_store (Labels_find 42) = None \<and>
   matching demo_store 42 = [] \<and>
   snd (order_details demo_store ''42'') =
     Response 404 (ErrorJson ''No valid labels found for OrderNr: 42'') \<and>
   js_parseInt ''9'' = Integer 9 \<and> fault demo_store (Labels_find 9) = None \<and>
   matching demo_store 9 = [label9] \<and> label.PlantDate label9 = Undefined \<and>
   label.UOM label9 = Undefined \<and>
   snd (order_details demo_store ''9'') = Response 200 (DetailJson demo_detail9) \<and>
   order_detail.PlantDate demo_detail9 = Null \<and>
   detail.UOM (Details demo_detail9 ! 0) = Null"
  using order_details_found_or_404[of "''7''" 7 demo_store]
    order_details_found_or_404[of "''42''" 42 demo_store]
    order_details_found_or_404[of "''9''" 9 demo_store]
  by (simp add: demo_defs eval_defs demo_detail7_def demo_detail9_def)

text \<open>
  Claim C3, as stated, fails: a label whose \<open>barcodeId\<close> is present and is the empty
  string gets the synthesized \<open>BarcodeID\<close>, not its own.
\<close>

theorem barcode_present_but_empty_counterexample:
  "Labels blank_store = [label7_blank] \<and> barcodeId label7_blank = Str [] \<and>
   label.ItemNumber label7_blank = Str ''X2'' \<and>
   order_details blank_store ''7'' =
     ([Query (Labels_find 7)], Response 200 (DetailJson blank_detail7)) \<and>
   map BarcodeID (Details blank_detail7) = [Str ''7-X2'']"
  by (simp add: demo_defs eval_defs blank_detail7_def)

text \<open>
  Claim C3, amended. In a 200 response the \<open>BarcodeID\<close> of each entry is the label's own
  \<open>barcodeId\<close> when that value is truthy, and otherwise the order number, a hyphen and the
  label's item number, each as the code prints it. The label of order 7 with item number
  \<open>X1\<close> and no \<open>barcodeId\<close> gets \<open>7-X1\<close>.
\<close>

theorem barcode_own_if_truthy_else_synthesized:
  assumes "snd (order_details s p) = Response 200 (DetailJson d)"
    and "js_parseInt p = Integer n"
  shows "length (Details d) = length (matching s n)
       \<and> (\<forall>i<length (matching s n).
             BarcodeID (Details d ! i) =
               (if truthy (barcodeId (matching s n ! i)) then barcodeId (matching s n ! i)
                else Str (number_to_string n @ ''-'' @
                          to_string (label.ItemNumber (matching s n ! i)))))"
proof -
  from order_details_200[OF assms(1)] assms(2)
  have d: "d = \<lparr> order_detail.OrderNr = n,
                  order_detail.PlantDate = js_or (label.PlantDate (hd (matching s n))) Null,
                  Details = map (detail_of n) (matching s n) \<rparr>"
    by auto
  show ?thesis unfolding d by (simp add: detail_of_def js_or_def)
qed

theorem barcode_own_if_truthy_else_synthesized_witness:
  "snd (order_details demo_store ''7'') = Response 200 (DetailJson demo_detail7) \<and>
   js_parseInt ''7'' = Integer 7 \<and>
   matching demo_store 7 ! 0 = label7 \<and>
   label.OrderNr label7 = 7 \<and> label.ItemNumber label7 = Str ''X1'' \<and>
   barcodeId label7 = Undefined \<and>
   BarcodeID (Details demo_detail7 ! 0) = Str ''7-X1'' \<and>
   snd (order_details demo_store ''9'') = Response 200 (DetailJson demo_detail9) \<and>
   matching demo_store 9 ! 0 = label9 \<and> barcodeId label9 = Str ''B123'' \<and>
   BarcodeID (Details demo_detail9 ! 0) = Str ''B123''"
  using barcode_own_if_truthy_else_synthesized[of demo_store "''7''" demo_detail7 7]
    barcode_own_if_truthy_else_synthesized[of demo_store "''9''" demo_detail9 9]
  by (simp add: demo_defs eval_defs demo_detail7_def demo_detail9_def)

text \<open>
  Claim C4, as stated, fails: the parameter \<open>3.9\<close> is not an integer, and the handler
  queries the store for order 3 and responds 404.
\<close>

theorem order_details_non_integer_counterexample:
  "\<not> integer_literal ''3.9'' \<and>
   order_details empty_store ''3.9'' =
     ([Query (Labels_find 3)],
      Response 404 (ErrorJson ''No valid labels found for OrderNr: 3''))"
  by (simp add: integer_literal_def empty_store_def eval_defs)

text \<open>
  Claim C4, amended. For every parameter without a leading integer the handler responds
  400 with the message \<open>OrderNr must be a valid number.\<close>, sends no query and writes
  nothing, whatever the store holds or raises; for every parameter with a leading
  integer the status is not 400.
\<close>

theorem order_details_400_iff_no_leading_integer:
  "(\<not> leading_integer p \<longrightarrow>
      order_details s p = ([], Response 400 (ErrorJson ''OrderNr must be a valid number.'')))
   \<and> (leading_integer p \<longrightarrow> status (snd (order_details s p)) \<noteq> 400)"
proof (intro conjI impI)
  assume "\<not> leading_integer p"
  then have "js_parseInt p = NaN" by (simp add: js_parseInt_NaN_iff)
  then show "order_details s p =
      ([], Response 400 (ErrorJson ''OrderNr must be a valid number.''))"
    by (rule order_details_NaN)
next
  assume "leading_integer p"
  then have "js_parseInt p \<noteq> NaN" by (simp add: js_parseInt_NaN_iff)
  then show "status (snd (order_details s p)) \<noteq> 400" by (rule order_details_not_400)
qed

theorem order_details_400_iff_no_leading_integer_witness:
  "\<not> leading_integer ''abc'' \<and>
   order_details broken_store ''abc'' =
     ([], Response 400 (ErrorJson ''OrderNr must be a valid number.'')) \<and>
   leading_integer '' -12abc'' \<and>
   status (snd (order_details broken_store '' -12abc'')) \<noteq> 400"
  using order_details_400_iff_no_leading_integer[of "''abc''" broken_store]
    order_details_400_iff_no_leading_integer[of "'' -12abc''" broken_store]
  by (simp add: leading_integer_def is_white_space_def is_digit_def)

text \<open>
  Claim C8. Each optional field goes through a logical-or on its value: in a 200 response
  the \<open>PlantDate\<close> is that of the first label when truthy and \<open>null\<close> otherwise, and for
  each label \<open>SmallText\<close> and \<open>UOM\<close> are the label's when truthy and \<open>null\<close> otherwise, and
  \<open>BarcodeID\<close> is the label's \<open>barcodeId\<close> when truthy and the synthesized one otherwise.
  The empty string and 0 are falsy, as the absent value is, so a field that is present
  with such a value is reported as an absent one is.
\<close>

theorem falsy_fields_treated_as_absent:
  assumes "snd (order_details s p) = Response 200 (DetailJson d)"
    and "js_parseInt p = Integer n"
  shows "order_detail.PlantDate d =
           (if truthy (label.PlantDate (hd (matching s n)))
            then label.PlantDate (hd (matching s n)) else Null)
       \<and> (\<forall>i<length (matching s n).
             detail.SmallText (Details d ! i) =
               (if truthy (label.SmallText (matching s n ! i))
                then label.SmallText (matching s n ! i) else Null)
           \<and> detail.UOM (Details d ! i) =
               (if truthy (label.UOM (matching s n ! i))
                then label.UOM (matching s n ! i) else Null)
           \<and> BarcodeID (Details d ! i) =
               (if truthy (barcodeId (matching s n ! i)) then barcodeId (matching s n ! i)
                else Str (number_to_string n @ ''-'' @
                          to_string (label.ItemNumber (matching s n ! i)))))
       \<and> \<not> truthy (Str []) \<and> \<not> truthy (Num 0) \<and> \<not> truthy Undefined"
proof -
  from order_details_200[OF assms(1)] assms(2)
  have d: "d = \<lparr> order_detail.OrderNr = n,
                  order_detail.PlantDate = js_or (label.PlantDate (hd (matching s n))) Null,
                  Details = map (detail_of n) (matching s n) \<rparr>"
    by auto
  show ?thesis unfolding d by (simp add: detail_of_def js_or_def)
qed

theorem falsy_fields_treated_as_absent_witness:
  "snd (order_details demo_store ''7'') = Response 200 (DetailJson demo_detail7) \<and>
   js_parseInt ''7'' = Integer 7 \<and>
   matching demo_store 7 = [label7, label7_blank] \<and>
   label.PlantDate label7 = Str ''2024-05-01'' \<and>
   order_detail.PlantDate demo_detail7 = Str ''2024-05-01'' \<and>
   label.SmallText label7 = Undefined \<and> detail.SmallText (Details demo_detail7 ! 0) = Null \<and>
   label.UOM label7 = Str ''EA'' \<and> detail.UOM (Details demo_detail7 ! 0) = Str ''EA'' \<and>
   label.SmallText label7_blank = Str [] \<and>
   detail.SmallText (Details demo_detail7 ! 1) = Null \<and>
   label.UOM label7_blank = Num 0 \<and> detail.UOM (Details demo_detail7 ! 1) = Null \<and>
   barcodeId label7_blank = Str [] \<and> BarcodeID (Details demo_detail7 ! 1) = Str ''7-X2'' \<and>
   snd (order_details blank_store ''7'') = Response 200 (DetailJson blank_detail7) \<and>
   matching blank_store 7 = [label7_blank] \<and>
   label.PlantDate label7_blank = Str [] \<and> order_detail.PlantDate blank_detail7 = Null \<and>
   snd (order_details demo_store ''9'') = Response 200 (DetailJson demo_detail9) \<and>
   matching demo_store 9 = [label9] \<and> barcodeId label9 = Str ''B123'' \<and>
   BarcodeID (Details demo_detail9 ! 0) = Str ''B123''"
  using falsy_fields_treated_as_absent[of demo_store "''7''" demo_detail7 7]
    falsy_fields_treated_as_absent[of blank_store "''7''" blank_detail7 7]
    falsy_fields_treated_as_absent[of demo_store "''9''" demo_detail9 9]
  by (simp add: demo_defs eval_defs demo_detail7_def demo_detail9_def blank_detail7_def)




section \<open>The label lookup\<close>

text \<open>
  Claim C6. The handler answers an empty barcode with 400, but no request brings it one:
  the path \<open>/labels/\<close> has no parameter, matches no route and gets the 404 of the
  fallback, so that the code does not answer \<open>/labels/\<close> with the 400 of its own guard.
\<close>

theorem labels_empty_path_not_found:
  "match_param ''/labels/'' ''/labels/'' = None \<and>
   app_get demo_store ''/labels/'' = Some ([], Response 404 (ErrorJson ''Route not found.'')) \<and>
   labels_by_barcode demo_store [] =
     ([], Response 400 (ErrorJson ''Barcode ID is required.''))"
  by (simp add: app_get_def match_path_def match_param_def strip_slash_def lower_def
      route_not_found_def labels_by_barcode_def)

text \<open>
  The lookup itself: given a non-empty barcode, on a store that raises no error, the
  response is 404 with a message that ends with the barcode when no label has it, and
  otherwise 200 with the first stored label that has it, unchanged.
\<close>

lemma labels_by_barcode_lookup:
  "labels_by_barcode s [] = ([], Response 400 (ErrorJson ''Barcode ID is required.''))
   \<and> (b \<noteq> [] \<and> fault s (Labels_findOne b) = None \<and>
       (\<forall>l\<in>set (Labels s). barcodeId l \<noteq> Str b) \<longrightarrow>
         snd (labels_by_barcode s b) =
           Response 404 (ErrorJson (''Label not found for ID: '' @ b)))
   \<and> (b \<noteq> [] \<and> fault s (Labels_findOne b) = None \<and>
       (\<exists>l\<in>set (Labels s). barcodeId l = Str b) \<longrightarrow>
         (\<exists>i<length (Labels s).
            barcodeId (Labels s ! i) = Str b \<and>
            (\<forall>j<i. barcodeId (Labels s ! j) \<noteq> Str b) \<and>
            snd (labels_by_barcode s b) = Response 200 (LabelJson (Labels s ! i))))"
proof (intro conjI impI)
  show "labels_by_barcode s [] = ([], Response 400 (ErrorJson ''Barcode ID is required.''))"
    by (simp add: labels_by_barcode_def)
next
  assume a: "b \<noteq> [] \<and> fault s (Labels_findOne b) = None \<and>
      (\<forall>l\<in>set (Labels s). barcodeId l \<noteq> Str b)"
  then have "find (\<lambda>l. barcodeId l = Str b) (Labels s) = None"
    by (simp add: find_None_iff_all)
  then show "snd (labels_by_barcode s b) =
      Response 404 (ErrorJson (''Label not found for ID: '' @ b))"
    using a by (simp add: labels_by_barcode_def findOne_Label_def)
next
  assume a: "b \<noteq> [] \<and> fault s (Labels_findOne b) = None \<and>
      (\<exists>l\<in>set (Labels s). barcodeId l = Str b)"
  then obtain i where i: "i < length (Labels s)" "barcodeId (Labels s ! i) = Str b"
      "\<forall>j<i. barcodeId (Labels s ! j) \<noteq> Str b"
      "find (\<lambda>l. barcodeId l = Str b) (Labels s) = Some (Labels s ! i)"
    using find_first[of "Labels s" "\<lambda>l. barcodeId l = Str b"] by blast
  then have "snd (labels_by_barcode s b) = Response 200 (LabelJson (Labels s ! i))"
    using a by (simp add: labels_by_barcode_def findOne_Label_def)
  then show "\<exists>i<length (Labels s).
      barcodeId (Labels s ! i) = Str b \<and>
      (\<forall>j<i. barcodeId (Labels s ! j) \<noteq> Str b) \<and>
      snd (labels_by_barcode s b) = Response 200 (LabelJson (Labels s ! i))"
    using i by blast
qed

section \<open>Store errors and empty results\<close>

text \<open>
  Claim C7. In each of the three handlers, when a query that the handler sends is
  rejected by the store the response is 500 with the fixed message of that handler, and
  the response of each handler is the same for every other choice of the messages of the
  store's errors.
\<close>

theorem store_errors_give_generic_500:
  "((\<exists>q\<in>set (queries (fst (order_headers s))). fault s q \<noteq> None) \<longrightarrow>
      snd (order_headers s) = Response 500 (ErrorJson ''Error fetching valid orders.''))
   \<and> ((\<exists>q\<in>set (queries (fst (order_details s p))). fault s q \<noteq> None) \<longrightarrow>
      snd (order_details s p) = Response 500 (ErrorJson ''Error fetching order details.''))
   \<and> ((\<exists>q\<in>set (queries (fst (labels_by_barcode s b))). fault s q \<noteq> None) \<longrightarrow>
      snd (labels_by_barcode s b) = Response 500 (ErrorJson ''Error fetching label.''))
   \<and> (\<forall>f. (\<forall>q. (f q = None) = (fault s q = None)) \<longrightarrow>
         snd (order_headers (s\<lparr>fault := f\<rparr>)) = snd (order_headers s)
       \<and> snd (order_details (s\<lparr>fault := f\<rparr>) p) = snd (order_details s p)
       \<and> snd (labels_by_barcode (s\<lparr>fault := f\<rparr>) b) = snd (labels_by_barcode s b))"
  using order_headers_raised[of s] order_details_raised[of s p] labels_by_barcode_raised[of s b]
    order_headers_fault_blind[of _ s] order_details_fault_blind[of _ s p]
    labels_by_barcode_fault_blind[of _ s b]
  by blast

theorem store_errors_give_generic_500_witness:
  "queries (fst (order_headers broken_store)) = [Labels_distinct_OrderNr] \<and>
   fault broken_store Labels_distinct_OrderNr = Some ''connection lost'' \<and>
   snd (order_headers broken_store) =
     Response 500 (ErrorJson ''Error fetching valid orders.'') \<and>
   queries (fst (order_details broken_store ''7'')) = [Labels_find 7] \<and>
   fault broken_store (Labels_find 7) = Some ''connection lost'' \<and>
   snd (order_details broken_store ''7'') =
     Response 500 (ErrorJson ''Error fetching order details.'') \<and>
   queries (fst (labels_by_barcode broken_store ''B123'')) = [Labels_findOne ''B123''] \<and>
   fault broken_store (Labels_findOne ''B123'') = Some ''connection lost'' \<and>
   snd (labels_by_barcode broken_store ''B123'') =
     Response 500 (ErrorJson ''Error fetching label.'') \<and>
   snd (order_headers (broken_store\<lparr>fault := (\<lambda>q. Some ''disk full'')\<rparr>)) =
     snd (order_headers broken_store) \<and>
   queries (fst (order_headers headers_down_store)) =
     [Labels_distinct_OrderNr, OrderHeaders_find_in [7, 9]] \<and>
   fault headers_down_store (OrderHeaders_find_in [7, 9]) = Some ''timeout'' \<and>
   snd (order_headers headers_down_store) =
     Response 500 (ErrorJson ''Error fetching valid orders.'')"
  using store_errors_give_generic_500[of broken_store "''7''" "''B123''"]
    store_errors_give_generic_500[of headers_down_store]
  by (simp add: demo_defs headers_down_store_def eval_defs)

text \<open>
  Claim C9. A 200 response of the order listing is a non-empty array of headers and a 200
  response of the order details has at least one entry in \<open>Details\<close>; when a query of
  either handler returns an empty result the status is 404.
\<close>

theorem ok_responses_are_never_empty:
  "(\<forall>b. snd (order_headers s) = Response 200 b \<longrightarrow>
        (\<exists>orders. b = OrdersJson orders \<and> orders \<noteq> []))
   \<and> (\<forall>b. snd (order_details s p) = Response 200 b \<longrightarrow>
        (\<exists>d. b = DetailJson d \<and> Details d \<noteq> []))
   \<and> (distinct_OrderNr s = Inr [] \<longrightarrow> status (snd (order_headers s)) = 404)
   \<and> (\<forall>vs. distinct_OrderNr s = Inr vs \<and> find_OrderHeaders_in s vs = Inr [] \<longrightarrow>
        status (snd (order_headers s)) = 404)
   \<and> (\<forall>n. js_parseInt p = Integer n \<and> find_Labels s n = Inr [] \<longrightarrow>
        status (snd (order_details s p)) = 404)"
proof (intro conjI allI impI)
  fix b assume "snd (order_headers s) = Response 200 b"
  from order_headers_200[OF this]
  show "\<exists>orders. b = OrdersJson orders \<and> orders \<noteq> []" by blast
next
  fix b assume "snd (order_details s p) = Response 200 b"
  then show "\<exists>d. b = DetailJson d \<and> Details d \<noteq> []" by (rule order_details_200_body)
next
  assume "distinct_OrderNr s = Inr []"
  then show "status (snd (order_headers s)) = 404" by (simp add: order_headers_def)
next
  fix vs assume "distinct_OrderNr s = Inr vs \<and> find_OrderHeaders_in s vs = Inr []"
  then show "status (snd (order_headers s)) = 404" by (simp add: order_headers_def)
next
  fix n assume "js_parseInt p = Integer n \<and> find_Labels s n = Inr []"
  then show "status (snd (order_details s p)) = 404" by (simp add: order_details_def)
qed

theorem ok_responses_are_never_empty_witness:
  "snd (order_headers demo_store) = Response 200 (OrdersJson [header7]) \<and>
   snd (order_details demo_store ''9'') = Response 200 (DetailJson demo_detail9) \<and>
   length (Details demo_detail9) = 1 \<and>
   distinct_OrderNr empty_store = Inr [] \<and>
   status (snd (order_headers empty_store)) = 404 \<and>
   js_parseInt ''5'' = Integer 5 \<and> find_Labels demo_store 5 = Inr [] \<and>
   status (snd (order_details demo_store ''5'')) = 404"
  using ok_responses_are_never_empty[of demo_store "''9''"]
    ok_responses_are_never_empty[of empty_store "''5''"]
    ok_responses_are_never_empty[of demo_store "''5''"]
  by (simp add: demo_defs eval_defs demo_detail9_def)

end
